theory Spec2Isabelle
  imports Main
begin

section \<open>The call center of \<open>call_center.py\<close>\<close>

text \<open>
  The program is object-oriented Python: \<open>Call\<close> and \<open>Employee\<close> objects refer to each
  other and are mutated in place, and the \<open>CallCenter\<close> keeps lists of employees and a
  deque of calls. Objects are modelled by references (natural numbers) into an explicit
  store, so that aliasing (one call reachable from an employee's slot, from the deque and
  from the caller) is what it is in the program. Every reference denotes an object (a
  Python reference cannot dangle); the objects the caller has not created yet are those
  no operation has touched.
\<close>

subsection \<open>Enumerations\<close>

datatype Rank = OPERATOR | SUPERVISOR | DIRECTOR

datatype CallState = READY | IN_PROGRESS | COMPLETE

text \<open>
  Python does not enforce the annotation \<open>rank: Rank\<close> of a call: \<open>dispatch_call\<close> tests
  the value against the three members and raises \<open>ValueError\<close> otherwise. \<open>NotARank\<close>
  stands for every value that is none of the three members.
\<close>

datatype rank_value = Member Rank | NotARank

text \<open>The exceptions the methods can raise.\<close>

datatype error = ValueError | AttributeError | NotImplementedError

subsection \<open>Objects and the store\<close>

type_synonym call_ref = nat
type_synonym employee_ref = nat

record Call =
  state :: CallState
  rank :: rank_value
  employee :: "employee_ref option"

text \<open>
  \<open>Employee\<close> is abstract; its three concrete subclasses \<open>Operator\<close>, \<open>Supervisor\<close> and
  \<open>Director\<close> fix the rank in their constructors and differ only in \<open>escalate_call\<close>.
  The class of an employee object is therefore read from its \<open>rank\<close> field. The field
  \<open>call_center\<close> is not stored: there is one call center, and it is part of the store.
\<close>

record Employee =
  employee_id :: int
  name :: string
  rank :: Rank
  call :: "call_ref option"

record CallCenter =
  operators :: "employee_ref list"
  supervisors :: "employee_ref list"
  directors :: "employee_ref list"
  queued_calls :: "call_ref list"

record store =
  calls :: "call_ref \<Rightarrow> Call"
  employees :: "employee_ref \<Rightarrow> Employee"
  center :: CallCenter

text \<open>
  A method returns its outcome (an exception or a value) together with the store it
  leaves behind: Python keeps every mutation made before an exception is raised.
\<close>

type_synonym 'a outcome = "(error + 'a) \<times> store"

subsection \<open>The hooks of the call center\<close>

text \<open>Both notification methods have the body \<open>pass\<close>.\<close>

definition notify_call_escalated :: "call_ref \<Rightarrow> store \<Rightarrow> unit outcome" where
  "notify_call_escalated c s = (Inr (), s)"

definition notify_call_completed :: "call_ref \<Rightarrow> store \<Rightarrow> unit outcome" where
  "notify_call_completed c s = (Inr (), s)"

definition dispatch_queued_call_to_newly_freed_employee ::
    "call_ref \<Rightarrow> employee_ref \<Rightarrow> store \<Rightarrow> unit outcome" where
  "dispatch_queued_call_to_newly_freed_employee c e s = (Inr (), s)"

subsection \<open>Employee methods\<close>

text \<open>
  \<open>take_call\<close>: three attribute writes, no test and no \<open>raise\<close>; it cannot fail on a call
  object, so it is a function on stores.
\<close>

definition take_call :: "employee_ref \<Rightarrow> call_ref \<Rightarrow> store \<Rightarrow> store" where
  "take_call e c s =
     (let s1 = s\<lparr>employees := (employees s)(e := (employees s e)\<lparr>call := Some c\<rparr>)\<rparr>;
          s2 = s1\<lparr>calls := (calls s1)(c := (calls s1 c)\<lparr>employee := Some e\<rparr>)\<rparr>
      in s2\<lparr>calls := (calls s2)(c := (calls s2 c)\<lparr>state := IN_PROGRESS\<rparr>)\<rparr>)"

text \<open>
  \<open>complete_call\<close>: \<open>self.call.state = ...\<close> raises \<open>AttributeError\<close> when \<open>self.call\<close> is
  \<open>None\<close>, before anything is written. The slot \<open>self.call\<close> is not written.
\<close>

definition complete_call :: "employee_ref \<Rightarrow> store \<Rightarrow> unit outcome" where
  "complete_call e s =
     (case call (employees s e) of
        None \<Rightarrow> (Inl AttributeError, s)
      | Some c \<Rightarrow>
          notify_call_completed c
            (s\<lparr>calls := (calls s)(c := (calls s c)\<lparr>state := COMPLETE\<rparr>)\<rparr>))"

text \<open>\<open>_escalate_call\<close> (an Isabelle name cannot start with an underscore).\<close>

definition escalate_call_internal :: "employee_ref \<Rightarrow> store \<Rightarrow> unit outcome" where
  "escalate_call_internal e s =
     (case call (employees s e) of
        None \<Rightarrow> (Inl AttributeError, s)
      | Some c \<Rightarrow>
          (let s1 = s\<lparr>calls := (calls s)(c := (calls s c)\<lparr>state := READY\<rparr>)\<rparr>;
               s2 = s1\<lparr>employees := (employees s1)(e := (employees s1 e)\<lparr>call := None\<rparr>)\<rparr>
           in notify_call_escalated c s2))"

definition Operator_escalate_call :: "employee_ref \<Rightarrow> store \<Rightarrow> unit outcome" where
  "Operator_escalate_call e s =
     (case call (employees s e) of
        None \<Rightarrow> (Inl AttributeError, s)
      | Some c \<Rightarrow>
          escalate_call_internal e
            (s\<lparr>calls := (calls s)(c := (calls s c)\<lparr>Call.rank := Member SUPERVISOR\<rparr>)\<rparr>))"

definition Supervisor_escalate_call :: "employee_ref \<Rightarrow> store \<Rightarrow> unit outcome" where
  "Supervisor_escalate_call e s =
     (case call (employees s e) of
        None \<Rightarrow> (Inl AttributeError, s)
      | Some c \<Rightarrow>
          escalate_call_internal e
            (s\<lparr>calls := (calls s)(c := (calls s c)\<lparr>Call.rank := Member DIRECTOR\<rparr>)\<rparr>))"

definition Director_escalate_call :: "employee_ref \<Rightarrow> store \<Rightarrow> unit outcome" where
  "Director_escalate_call e s = (Inl NotImplementedError, s)"

text \<open>The call \<open>employee.escalate_call()\<close>: dynamic dispatch on the employee's class.\<close>

definition escalate_call :: "employee_ref \<Rightarrow> store \<Rightarrow> unit outcome" where
  "escalate_call e s =
     (case Employee.rank (employees s e) of
        OPERATOR \<Rightarrow> Operator_escalate_call e s
      | SUPERVISOR \<Rightarrow> Supervisor_escalate_call e s
      | DIRECTOR \<Rightarrow> Director_escalate_call e s)"

subsection \<open>Escalation with the hook as a method of the call center\<close>

text \<open>
  \<open>_escalate_call\<close> reaches the hook through \<open>self.call_center\<close>, so the method
  that runs is the one of the call center's class, and a subclass of \<open>CallCenter\<close> may
  override the placeholders. The two notification methods of a call center class are a
  record; \<open>CallCenter_own\<close> is the class \<open>CallCenter\<close> itself. The functions with the
  suffix \<open>_in\<close> are \<open>_escalate_call\<close> and \<open>escalate_call\<close> with the class of the
  call center as a parameter; the body is the one above, with the hook read from the class.
\<close>

record CallCenter_methods =
  notify_call_escalated_method :: "call_ref \<Rightarrow> store \<Rightarrow> unit outcome"
  notify_call_completed_method :: "call_ref \<Rightarrow> store \<Rightarrow> unit outcome"

definition CallCenter_own :: CallCenter_methods where
  "CallCenter_own =
     \<lparr>notify_call_escalated_method = notify_call_escalated,
      notify_call_completed_method = notify_call_completed\<rparr>"

definition escalate_call_internal_in ::
    "CallCenter_methods \<Rightarrow> employee_ref \<Rightarrow> store \<Rightarrow> unit outcome" where
  "escalate_call_internal_in k e s =
     (case call (employees s e) of
        None \<Rightarrow> (Inl AttributeError, s)
      | Some c \<Rightarrow>
          (let s1 = s\<lparr>calls := (calls s)(c := (calls s c)\<lparr>state := READY\<rparr>)\<rparr>;
               s2 = s1\<lparr>employees := (employees s1)(e := (employees s1 e)\<lparr>call := None\<rparr>)\<rparr>
           in notify_call_escalated_method k c s2))"

definition escalate_call_in ::
    "CallCenter_methods \<Rightarrow> employee_ref \<Rightarrow> store \<Rightarrow> unit outcome" where
  "escalate_call_in k e s =
     (case Employee.rank (employees s e) of
        OPERATOR \<Rightarrow>
          (case call (employees s e) of
             None \<Rightarrow> (Inl AttributeError, s)
           | Some c \<Rightarrow>
               escalate_call_internal_in k e
                 (s\<lparr>calls := (calls s)(c := (calls s c)\<lparr>Call.rank := Member SUPERVISOR\<rparr>)\<rparr>))
      | SUPERVISOR \<Rightarrow>
          (case call (employees s e) of
             None \<Rightarrow> (Inl AttributeError, s)
           | Some c \<Rightarrow>
               escalate_call_internal_in k e
                 (s\<lparr>calls := (calls s)(c := (calls s c)\<lparr>Call.rank := Member DIRECTOR\<rparr>)\<rparr>))
      | DIRECTOR \<Rightarrow> (Inl NotImplementedError, s))"

subsection \<open>CallCenter methods\<close>

text \<open>
  \<open>_dispatch_to_available\<close>: the \<open>for\<close> loop over the list, returning at the first
  employee whose slot is \<open>None\<close>.
\<close>

fun dispatch_to_available ::
    "call_ref \<Rightarrow> employee_ref list \<Rightarrow> store \<Rightarrow> employee_ref option \<times> store" where
  "dispatch_to_available c [] s = (None, s)"
| "dispatch_to_available c (e # es) s =
     (if call (employees s e) = None then (Some e, take_call e c s)
      else dispatch_to_available c es s)"

text \<open>
  Python's \<open>a or b\<close> on employee objects: \<open>b\<close> is evaluated only when \<open>a\<close> is \<open>None\<close>
  (an employee object is truthy: the class defines neither \<open>__bool__\<close> nor \<open>__len__\<close>).
\<close>

definition py_or ::
    "employee_ref option \<times> store \<Rightarrow> (store \<Rightarrow> employee_ref option \<times> store)
      \<Rightarrow> employee_ref option \<times> store" where
  "py_or a b = (case a of (Some e, s) \<Rightarrow> (Some e, s) | (None, s) \<Rightarrow> b s)"

text \<open>\<open>_dispatch_call_based_on_rank\<close>, with the pools in the order the source names them.\<close>

definition dispatch_call_based_on_rank ::
    "call_ref \<Rightarrow> store \<Rightarrow> employee_ref option \<times> store" where
  "dispatch_call_based_on_rank c s =
     (if Call.rank (calls s c) = Member OPERATOR then
        dispatch_to_available c (operators (center s)) s
      else if Call.rank (calls s c) = Member SUPERVISOR then
        py_or (dispatch_to_available c (supervisors (center s)) s)
              (dispatch_to_available c (operators (center s)))
      else if Call.rank (calls s c) = Member DIRECTOR then
        py_or (py_or (dispatch_to_available c (directors (center s)) s)
                     (dispatch_to_available c (supervisors (center s))))
              (dispatch_to_available c (operators (center s)))
      else (None, s))"

definition dispatch_call :: "call_ref \<Rightarrow> store \<Rightarrow> unit outcome" where
  "dispatch_call c s =
     (if Call.rank (calls s c) \<notin> {Member OPERATOR, Member SUPERVISOR, Member DIRECTOR}
      then (Inl ValueError, s)
      else
        (case dispatch_call_based_on_rank c s of
           (None, s1) \<Rightarrow>
             (Inr (), s1\<lparr>center := (center s1)\<lparr>queued_calls := queued_calls (center s1) @ [c]\<rparr>\<rparr>)
         | (Some e, s1) \<Rightarrow> (Inr (), s1)))"

subsection \<open>Sequences of public operations\<close>

text \<open>
  The caller of the library submits calls and lets employees complete or escalate them.
  An operation that raises leaves the store it has reached; the caller goes on from there.
\<close>

datatype operation = Dispatch call_ref | Complete employee_ref | Escalate employee_ref

fun step :: "operation \<Rightarrow> store \<Rightarrow> unit outcome" where
  "step (Dispatch c) s = dispatch_call c s"
| "step (Complete e) s = complete_call e s"
| "step (Escalate e) s = escalate_call e s"

fun run :: "operation list \<Rightarrow> store \<Rightarrow> store" where
  "run [] s = s"
| "run (x # xs) s = run xs (snd (step x s))"

text \<open>
  A store for examples: every call is \<open>READY\<close> with no employee, as \<open>Call.__init__\<close>
  leaves it, and every employee's slot is empty, as \<open>Employee.__init__\<close> leaves it. The
  rank of each call and of each employee and the three pools are parameters.
\<close>

definition fresh ::
    "(call_ref \<Rightarrow> rank_value) \<Rightarrow> (employee_ref \<Rightarrow> Rank)
      \<Rightarrow> employee_ref list \<Rightarrow> employee_ref list \<Rightarrow> employee_ref list \<Rightarrow> store" where
  "fresh cr er ops sups dirs =
     \<lparr>calls = (\<lambda>c. \<lparr>state = READY, rank = cr c, employee = None\<rparr>),
      employees = (\<lambda>e. \<lparr>employee_id = int e, name = [], rank = er e, call = None\<rparr>),
      center = \<lparr>operators = ops, supervisors = sups, directors = dirs, queued_calls = []\<rparr>\<rparr>"

text \<open>The stores used in the examples: one pool member (or two), all calls of one rank.\<close>

definition one_operator :: "Rank \<Rightarrow> store" where
  "one_operator r = fresh (\<lambda>c. Member r) (\<lambda>e. OPERATOR) [0] [] []"

definition two_operators :: store where
  "two_operators = fresh (\<lambda>c. Member OPERATOR) (\<lambda>e. OPERATOR) [0, 1] [] []"

definition one_supervisor :: store where
  "one_supervisor = fresh (\<lambda>c. Member SUPERVISOR) (\<lambda>e. SUPERVISOR) [] [0] []"

definition one_director :: store where
  "one_director = fresh (\<lambda>c. Member DIRECTOR) (\<lambda>e. DIRECTOR) [] [] [0]"

text \<open>
  A call center class for the examples whose escalation hook appends the call to the
  queue and whose completion hook raises.
\<close>

definition enqueueing :: CallCenter_methods where
  "enqueueing =
     \<lparr>notify_call_escalated_method =
        (\<lambda>c s. (Inr (), s\<lparr>center := (center s)\<lparr>queued_calls := queued_calls (center s) @ [c]\<rparr>\<rparr>)),
      notify_call_completed_method = (\<lambda>c s. (Inl ValueError, s))\<rparr>"

subsection \<open>The consistency that the operations keep\<close>

text \<open>
  A call that is \<open>IN_PROGRESS\<close> names an employee, and that employee's slot holds the call.
\<close>

definition assigned_consistent :: "store \<Rightarrow> bool" where
  "assigned_consistent s \<longleftrightarrow>
     (\<forall>c. state (calls s c) = IN_PROGRESS \<longrightarrow>
        (\<exists>e. employee (calls s c) = Some e \<and> call (employees s e) = Some c))"

section \<open>Evaluation and basic facts\<close>

lemmas unfold_all = fresh_def one_operator_def two_operators_def one_supervisor_def
  one_director_def take_call_def dispatch_call_def dispatch_call_based_on_rank_def py_or_def
  complete_call_def escalate_call_def escalate_call_internal_def Operator_escalate_call_def
  Supervisor_escalate_call_def Director_escalate_call_def notify_call_completed_def
  notify_call_escalated_def Let_def

lemma take_call_calls:
  "calls (take_call e c s) =
     (calls s)(c := (calls s c)\<lparr>employee := Some e, state := IN_PROGRESS\<rparr>)"
  by (simp add: take_call_def Let_def)

lemma take_call_employees:
  "employees (take_call e c s) = (employees s)(e := (employees s e)\<lparr>call := Some c\<rparr>)"
  by (simp add: take_call_def Let_def)

lemma take_call_center: "center (take_call e c s) = center s"
  by (simp add: take_call_def Let_def)

section \<open>The assignment helper\<close>

lemma dispatch_to_available_all_busy:
  "\<forall>e \<in> set es. call (employees s e) \<noteq> None \<Longrightarrow>
     dispatch_to_available c es s = (None, s)"
  by (induction es) auto

lemma dispatch_to_available_first_free:
  "\<forall>x \<in> set pre. call (employees s x) \<noteq> None \<Longrightarrow> call (employees s e) = None \<Longrightarrow>
     dispatch_to_available c (pre @ e # post) s = (Some e, take_call e c s)"
  by (induction pre) auto

text \<open>
  C10. \<open>_dispatch_to_available\<close> binds the call only to an employee whose slot is empty.
  When every employee of the list is busy it returns \<open>None\<close> and the store is unchanged
  (no slot and no call is written). Otherwise, for the first employee \<open>e\<close> of the list
  with an empty slot (all before it busy), it returns \<open>e\<close>, and the store it leaves is
  the old one with exactly the writes of \<open>e.take_call(call)\<close>: the slot of \<open>e\<close> holds the
  call, the call names \<open>e\<close> and is \<open>IN_PROGRESS\<close>, and every other slot and call is as
  before. Conversely, an employee it returns is in the list and had an empty slot, and
  it returns \<open>None\<close> only with the store unchanged and every employee of the list busy.
\<close>

theorem C10_dispatch_to_available:
  "((\<forall>e \<in> set es. call (employees s e) \<noteq> None) \<longrightarrow>
      dispatch_to_available c es s = (None, s)) \<and>
   (\<forall>pre e post.
      es = pre @ e # post \<and> (\<forall>x \<in> set pre. call (employees s x) \<noteq> None) \<and>
      call (employees s e) = None \<longrightarrow>
      dispatch_to_available c es s =
        (Some e,
         s\<lparr>employees := (employees s)(e := (employees s e)\<lparr>call := Some c\<rparr>),
           calls := (calls s)(c := (calls s c)\<lparr>employee := Some e, state := IN_PROGRESS\<rparr>)\<rparr>) \<and>
      dispatch_to_available c es s = (Some e, take_call e c s) \<and>
      call (employees (snd (dispatch_to_available c es s)) e) = Some c \<and>
      employee (calls (snd (dispatch_to_available c es s)) c) = Some e \<and>
      state (calls (snd (dispatch_to_available c es s)) c) = IN_PROGRESS) \<and>
   (\<forall>e s'. dispatch_to_available c es s = (Some e, s') \<longrightarrow>
      e \<in> set es \<and> call (employees s e) = None) \<and>
   (\<forall>s'. dispatch_to_available c es s = (None, s') \<longrightarrow>
      s' = s \<and> (\<forall>e \<in> set es. call (employees s e) \<noteq> None))"
proof (intro conjI allI impI)
  assume "\<forall>e \<in> set es. call (employees s e) \<noteq> None"
  then show "dispatch_to_available c es s = (None, s)"
    by (rule dispatch_to_available_all_busy)
next
  fix pre e post
  assume h: "es = pre @ e # post \<and> (\<forall>x \<in> set pre. call (employees s x) \<noteq> None) \<and>
      call (employees s e) = None"
  then have d: "dispatch_to_available c es s = (Some e, take_call e c s)"
    by (simp add: dispatch_to_available_first_free)
  have t: "take_call e c s =
         s\<lparr>employees := (employees s)(e := (employees s e)\<lparr>call := Some c\<rparr>),
           calls := (calls s)(c := (calls s c)\<lparr>employee := Some e, state := IN_PROGRESS\<rparr>)\<rparr>"
    by (simp add: take_call_def Let_def)
  show "dispatch_to_available c es s = (Some e, take_call e c s)" by (rule d)
  show "dispatch_to_available c es s =
        (Some e,
         s\<lparr>employees := (employees s)(e := (employees s e)\<lparr>call := Some c\<rparr>),
           calls := (calls s)(c := (calls s c)\<lparr>employee := Some e, state := IN_PROGRESS\<rparr>)\<rparr>)"
    using d t by simp
  show "call (employees (snd (dispatch_to_available c es s)) e) = Some c"
    by (simp add: d take_call_employees)
  show "employee (calls (snd (dispatch_to_available c es s)) c) = Some e"
    by (simp add: d take_call_calls)
  show "state (calls (snd (dispatch_to_available c es s)) c) = IN_PROGRESS"
    by (simp add: d take_call_calls)
next
  fix e s'
  assume "dispatch_to_available c es s = (Some e, s')"
  then show "e \<in> set es" "call (employees s e) = None"
    by (induction es) (auto split: if_splits)
next
  fix s'
  assume "dispatch_to_available c es s = (None, s')"
  then show "s' = s" "\<forall>e \<in> set es. call (employees s e) \<noteq> None"
    by (induction es) (auto split: if_splits)
qed

theorem C10_dispatch_to_available_witness:
  "call (employees (take_call 0 0 two_operators) 0) \<noteq> None \<and>
   call (employees (take_call 0 0 two_operators) 1) = None \<and>
   state (calls (take_call 0 0 two_operators) 1) = READY \<and>
   employee (calls (take_call 0 0 two_operators) 1) = None \<and>
   fst (dispatch_to_available 1 [0, 1, 2] (take_call 0 0 two_operators)) = Some 1 \<and>
   call (employees (snd (dispatch_to_available 1 [0, 1, 2] (take_call 0 0 two_operators))) 1)
     = Some 1 \<and>
   employee (calls (snd (dispatch_to_available 1 [0, 1, 2] (take_call 0 0 two_operators))) 1)
     = Some 1 \<and>
   state (calls (snd (dispatch_to_available 1 [0, 1, 2] (take_call 0 0 two_operators))) 1)
     = IN_PROGRESS \<and>
   call (employees (snd (dispatch_to_available 1 [0, 1, 2] (take_call 0 0 two_operators))) 0)
     = Some 0 \<and>
   call (employees (snd (dispatch_to_available 1 [0, 1, 2] (take_call 0 0 two_operators))) 2)
     = None \<and>
   dispatch_to_available 1 [0, 0] (take_call 0 0 two_operators) =
     (None, take_call 0 0 two_operators)"
proof -
  let ?s = "take_call 0 0 two_operators"
  have busy: "call (employees ?s 0) \<noteq> None"
    by (simp add: two_operators_def fresh_def take_call_def)
  have free: "call (employees ?s 1) = None" "call (employees ?s 2) = None"
    by (simp_all add: two_operators_def fresh_def take_call_def)
  have before: "state (calls ?s 1) = READY" "employee (calls ?s 1) = None"
    "call (employees ?s 0) = Some 0"
    by (simp_all add: two_operators_def fresh_def take_call_def)
  have a: "dispatch_to_available 1 [0, 0] ?s = (None, ?s)"
    using C10_dispatch_to_available [of "[0, 0]" ?s 1] busy by simp
  have "[0, 1, 2] = [0] @ 1 # [2::nat] \<and>
        (\<forall>x \<in> set [0::nat]. call (employees ?s x) \<noteq> None) \<and> call (employees ?s 1) = None"
    using busy free by simp
  then have b: "dispatch_to_available 1 [0, 1, 2] ?s =
        (Some 1,
         ?s\<lparr>employees := (employees ?s)(1 := (employees ?s 1)\<lparr>call := Some 1\<rparr>),
           calls := (calls ?s)(1 := (calls ?s 1)\<lparr>employee := Some 1, state := IN_PROGRESS\<rparr>)\<rparr>)"
    using C10_dispatch_to_available [of "[0, 1, 2]" ?s 1] by blast
  show ?thesis unfolding a b using busy free before by simp
qed

section \<open>Escalation at the top rank\<close>

text \<open>
  C9. For every employee of rank \<open>DIRECTOR\<close>, \<open>escalate_call\<close> raises
  \<open>NotImplementedError\<close> (the spec's EscalationNotSupported), whether or not the
  director holds a call, and the store after the failure is the store before it: the held
  call keeps its state, rank and employee, and the director keeps the call.
\<close>

theorem C9_director_cannot_escalate:
  "Employee.rank (employees s e) = DIRECTOR \<Longrightarrow>
     escalate_call e s = (Inl NotImplementedError, s)"
  by (simp add: escalate_call_def Director_escalate_call_def)

theorem C9_director_cannot_escalate_witness:
  "Employee.rank (employees (take_call 0 0 one_director) 0) = DIRECTOR \<and>
   call (employees (take_call 0 0 one_director) 0) = Some 0 \<and>
   state (calls (take_call 0 0 one_director) 0) = IN_PROGRESS \<and>
   employee (calls (take_call 0 0 one_director) 0) = Some 0 \<and>
   escalate_call 0 (take_call 0 0 one_director) =
     (Inl NotImplementedError, take_call 0 0 one_director)"
  using C9_director_cannot_escalate [of "take_call 0 0 one_director" 0]
  by (simp add: one_director_def fresh_def take_call_def)

section \<open>Routing\<close>

text \<open>
  C1. The claim: the search goes from the call's rank upward and never hands a call to an
  employee of a lower rank. The code goes the other way. Scenario A of the specification:
  one operator, no supervisor, no director, and a call of rank \<open>SUPERVISOR\<close> is submitted.
  \<open>_dispatch_call_based_on_rank\<close> tries the supervisors and then the operators, so the
  call is taken by the operator and the queue stays empty.
\<close>

theorem C1_supervisor_call_given_to_operator:
  "snd (dispatch_call 0 (one_operator SUPERVISOR)) = take_call 0 0 (one_operator SUPERVISOR) \<and>
   Call.rank (calls (snd (dispatch_call 0 (one_operator SUPERVISOR))) 0) = Member SUPERVISOR \<and>
   state (calls (snd (dispatch_call 0 (one_operator SUPERVISOR))) 0) = IN_PROGRESS \<and>
   employee (calls (snd (dispatch_call 0 (one_operator SUPERVISOR))) 0) = Some 0 \<and>
   Employee.rank (employees (snd (dispatch_call 0 (one_operator SUPERVISOR))) 0) = OPERATOR \<and>
   queued_calls (center (snd (dispatch_call 0 (one_operator SUPERVISOR)))) = []"
  by (simp add: unfold_all)

text \<open>
  The same direction seen from below: a call of rank \<open>OPERATOR\<close> is offered to the
  operators only. With the one operator busy and a supervisor free, it is queued.
\<close>

lemma operator_call_not_offered_upward:
  "call (employees (take_call 0 0
       (fresh (\<lambda>c. Member OPERATOR) (\<lambda>e. if e = 0 then OPERATOR else SUPERVISOR) [0] [1] [])) 1)
     = None \<and>
   queued_calls (center (snd (dispatch_call 1 (take_call 0 0
       (fresh (\<lambda>c. Member OPERATOR) (\<lambda>e. if e = 0 then OPERATOR else SUPERVISOR) [0] [1] [])))))
     = [1]"
  by (simp add: unfold_all)

text \<open>
  What the downward search does to an escalation: the only operator escalates call 0
  ``to a Supervisor'' and the call is submitted again; with no supervisor it is handed
  back to the same operator, now with rank \<open>SUPERVISOR\<close>.
\<close>

lemma escalated_call_returns_to_operator:
  "Call.rank (calls (run [Dispatch 0, Escalate 0, Dispatch 0] (one_operator OPERATOR)) 0)
     = Member SUPERVISOR \<and>
   state (calls (run [Dispatch 0, Escalate 0, Dispatch 0] (one_operator OPERATOR)) 0)
     = IN_PROGRESS \<and>
   call (employees (run [Dispatch 0, Escalate 0, Dispatch 0] (one_operator OPERATOR)) 0) = Some 0 \<and>
   Employee.rank (employees (run [Dispatch 0, Escalate 0, Dispatch 0] (one_operator OPERATOR)) 0)
     = OPERATOR"
  by (simp add: unfold_all)

section \<open>Accepting a call\<close>

text \<open>
  C5, the claim fails: \<open>take_call\<close> on a busy employee does not fail. Employee 0 holds
  call 0; \<open>take_call\<close> with call 1 performs the assignment and replaces the slot, and
  \<open>take_call\<close> with call 0, which is \<open>IN_PROGRESS\<close> and not \<open>READY\<close>, performs it too.
\<close>

theorem C5_busy_employee_takes_second_call:
  "call (employees (take_call 0 0 (one_operator OPERATOR)) 0) = Some 0 \<and>
   state (calls (take_call 0 0 (one_operator OPERATOR)) 0) = IN_PROGRESS \<and>
   call (employees (take_call 0 1 (take_call 0 0 (one_operator OPERATOR))) 0) = Some 1 \<and>
   employee (calls (take_call 0 1 (take_call 0 0 (one_operator OPERATOR))) 1) = Some 0 \<and>
   state (calls (take_call 0 1 (take_call 0 0 (one_operator OPERATOR))) 1) = IN_PROGRESS \<and>
   call (employees (take_call 0 0 (take_call 0 0 (one_operator OPERATOR))) 0) = Some 0"
  by (simp add: unfold_all)

text \<open>
  C5, as amended. \<open>take_call\<close> has no precondition and never fails: for every employee,
  call and store it sets the employee's slot to the call, the call's employee to the
  employee and the call's state to \<open>IN_PROGRESS\<close>, whatever the slot held and whatever
  the call's state was; the call's rank and the call center are untouched. A slot holds
  one call reference at most (it is an optional reference); that the slot is empty is
  tested by \<open>_dispatch_to_available\<close> before it calls \<open>take_call\<close>.
\<close>

theorem C5_take_call_unconditional:
  "call (employees (take_call e c s) e) = Some c \<and>
   employee (calls (take_call e c s) c) = Some e \<and>
   state (calls (take_call e c s) c) = IN_PROGRESS \<and>
   Call.rank (calls (take_call e c s) c) = Call.rank (calls s c) \<and>
   center (take_call e c s) = center s"
  by (simp add: take_call_def Let_def)

section \<open>Escalation below the top rank\<close>

text \<open>
  C6, the claim fails in one point: the call's reference to its employee is not cleared.
  Supervisor 0 holds call 0 and escalates it; afterwards the call still names employee 0.
\<close>

theorem C6_back_reference_kept:
  "call (employees (take_call 0 0 one_supervisor) 0) = Some 0 \<and>
   fst (escalate_call 0 (take_call 0 0 one_supervisor)) = Inr () \<and>
   employee (calls (snd (escalate_call 0 (take_call 0 0 one_supervisor))) 0) = Some 0"
  by (simp add: unfold_all)

lemma escalate_call_in_own: "escalate_call_in CallCenter_own e s = escalate_call e s"
  by (simp add: escalate_call_in_def escalate_call_def escalate_call_internal_in_def
        escalate_call_internal_def Operator_escalate_call_def Supervisor_escalate_call_def
        Director_escalate_call_def CallCenter_own_def
      split: Rank.splits option.splits)

text \<open>
  C6, as amended. For every employee that is not a director and holds a call,
  \<open>escalate_call\<close> sets the call's rank to the rank next above the employee's own
  (\<open>SUPERVISOR\<close> for an operator, \<open>DIRECTOR\<close> for a supervisor), sets the call's state
  to \<open>READY\<close>, empties the employee's slot and then, on the store these writes leave,
  calls the call center's method \<open>notify_call_escalated\<close> with that call; the outcome of
  the hook is the outcome of the escalation. This holds for every class of call center;
  with \<open>CallCenter\<close>'s own placeholder the escalation succeeds and nothing further
  changes. The call's reference to its employee is not cleared: it is left as it was.
\<close>

theorem C6_escalate_call_effect:
  assumes "Employee.rank (employees s e) \<noteq> DIRECTOR" and "call (employees s e) = Some c"
  shows "escalate_call e s =
           (Inr (),
            s\<lparr>calls := (calls s)(c := (calls s c)
                 \<lparr>Call.rank := Member (if Employee.rank (employees s e) = OPERATOR
                                       then SUPERVISOR else DIRECTOR),
                  state := READY\<rparr>),
              employees := (employees s)(e := (employees s e)\<lparr>call := None\<rparr>)\<rparr>) \<and>
         (\<forall>k. escalate_call_in k e s =
            notify_call_escalated_method k c
              (s\<lparr>calls := (calls s)(c := (calls s c)
                   \<lparr>Call.rank := Member (if Employee.rank (employees s e) = OPERATOR
                                         then SUPERVISOR else DIRECTOR),
                    state := READY\<rparr>),
                employees := (employees s)(e := (employees s e)\<lparr>call := None\<rparr>)\<rparr>)) \<and>
         escalate_call e s = escalate_call_in CallCenter_own e s \<and>
         employee (calls (snd (escalate_call e s)) c) = employee (calls s c)"
proof (intro conjI allI)
  show "escalate_call e s =
           (Inr (),
            s\<lparr>calls := (calls s)(c := (calls s c)
                 \<lparr>Call.rank := Member (if Employee.rank (employees s e) = OPERATOR
                                       then SUPERVISOR else DIRECTOR),
                  state := READY\<rparr>),
              employees := (employees s)(e := (employees s e)\<lparr>call := None\<rparr>)\<rparr>)"
    using assms
    by (cases "Employee.rank (employees s e)")
       (simp_all add: escalate_call_def Operator_escalate_call_def Supervisor_escalate_call_def
          escalate_call_internal_def notify_call_escalated_def Let_def)
  then show "employee (calls (snd (escalate_call e s)) c) = employee (calls s c)"
    by simp
  show "escalate_call e s = escalate_call_in CallCenter_own e s"
    by (simp add: escalate_call_in_own)
next
  fix k
  show "escalate_call_in k e s =
            notify_call_escalated_method k c
              (s\<lparr>calls := (calls s)(c := (calls s c)
                   \<lparr>Call.rank := Member (if Employee.rank (employees s e) = OPERATOR
                                         then SUPERVISOR else DIRECTOR),
                    state := READY\<rparr>),
                employees := (employees s)(e := (employees s e)\<lparr>call := None\<rparr>)\<rparr>)"
    using assms
    by (cases "Employee.rank (employees s e)")
       (simp_all add: escalate_call_in_def escalate_call_internal_in_def Let_def)
qed

theorem C6_escalate_call_effect_witness:
  "Employee.rank (employees (take_call 0 0 (one_operator OPERATOR)) 0) \<noteq> DIRECTOR \<and>
   call (employees (take_call 0 0 (one_operator OPERATOR)) 0) = Some 0 \<and>
   fst (escalate_call 0 (take_call 0 0 (one_operator OPERATOR))) = Inr () \<and>
   Call.rank (calls (snd (escalate_call 0 (take_call 0 0 (one_operator OPERATOR)))) 0)
     = Member SUPERVISOR \<and>
   state (calls (snd (escalate_call 0 (take_call 0 0 (one_operator OPERATOR)))) 0) = READY \<and>
   call (employees (snd (escalate_call 0 (take_call 0 0 (one_operator OPERATOR)))) 0) = None \<and>
   employee (calls (snd (escalate_call 0 (take_call 0 0 (one_operator OPERATOR)))) 0) = Some 0 \<and>
   queued_calls (center (snd (escalate_call 0 (take_call 0 0 (one_operator OPERATOR))))) = [] \<and>
   fst (escalate_call_in enqueueing 0 (take_call 0 0 (one_operator OPERATOR))) = Inr () \<and>
   queued_calls (center (snd (escalate_call_in enqueueing 0 (take_call 0 0 (one_operator OPERATOR)))))
     = [0] \<and>
   state (calls (snd (escalate_call_in enqueueing 0 (take_call 0 0 (one_operator OPERATOR)))) 0)
     = READY \<and>
   call (employees (snd (escalate_call_in enqueueing 0 (take_call 0 0 (one_operator OPERATOR)))) 0)
     = None"
proof -
  let ?s = "take_call 0 0 (one_operator OPERATOR)"
  have r: "Employee.rank (employees ?s 0) \<noteq> DIRECTOR"
    by (simp add: one_operator_def fresh_def take_call_def)
  have h: "call (employees ?s 0) = Some 0"
    by (simp add: one_operator_def fresh_def take_call_def)
  have o: "Employee.rank (employees ?s 0) = OPERATOR"
    by (simp add: one_operator_def fresh_def take_call_def)
  have q: "queued_calls (center ?s) = []" "employee (calls ?s 0) = Some 0"
    by (simp_all add: one_operator_def fresh_def take_call_def)
  from C6_escalate_call_effect [OF r h] have
    a: "escalate_call 0 ?s =
           (Inr (),
            ?s\<lparr>calls := (calls ?s)(0 := (calls ?s 0)
                 \<lparr>Call.rank := Member (if Employee.rank (employees ?s 0) = OPERATOR
                                       then SUPERVISOR else DIRECTOR),
                  state := READY\<rparr>),
              employees := (employees ?s)(0 := (employees ?s 0)\<lparr>call := None\<rparr>)\<rparr>)"
    and b: "escalate_call_in enqueueing 0 ?s =
            notify_call_escalated_method enqueueing 0
              (?s\<lparr>calls := (calls ?s)(0 := (calls ?s 0)
                   \<lparr>Call.rank := Member (if Employee.rank (employees ?s 0) = OPERATOR
                                         then SUPERVISOR else DIRECTOR),
                    state := READY\<rparr>),
                employees := (employees ?s)(0 := (employees ?s 0)\<lparr>call := None\<rparr>)\<rparr>)"
    by blast+
  show ?thesis
    unfolding a b using r h o q by (simp add: enqueueing_def)
qed

text \<open>
  C7. The claim: an escalation never lowers a call's rank and raises it by one step. One
  operator and nobody else; a call of rank \<open>DIRECTOR\<close> is submitted and, by the downward
  search of C1, taken by the operator. The operator escalates: the escalation succeeds
  and the call's rank goes from \<open>DIRECTOR\<close> down to \<open>SUPERVISOR\<close>.
\<close>

theorem C7_operator_lowers_director_call:
  "Call.rank (calls (run [Dispatch 0] (one_operator DIRECTOR)) 0) = Member DIRECTOR \<and>
   call (employees (run [Dispatch 0] (one_operator DIRECTOR)) 0) = Some 0 \<and>
   fst (escalate_call 0 (run [Dispatch 0] (one_operator DIRECTOR))) = Inr () \<and>
   Call.rank (calls (run [Dispatch 0, Escalate 0] (one_operator DIRECTOR)) 0) = Member SUPERVISOR"
  by (simp add: unfold_all)

section \<open>The escalation hook\<close>




section \<open>Completion\<close>

text \<open>
  C8. The claim: \<open>complete_call\<close> sets the call's state to \<open>COMPLETE\<close>, empties the
  employee's slot and calls the hook. The code does not write the slot. One operator takes
  call 0 and completes it: the completion succeeds, the call is \<open>COMPLETE\<close>, and the
  operator's slot still holds call 0. The operator is therefore never free again: call 1,
  submitted next, is queued.
\<close>

theorem C8_slot_kept_after_completion:
  "call (employees (run [Dispatch 0] (one_operator OPERATOR)) 0) = Some 0 \<and>
   fst (complete_call 0 (run [Dispatch 0] (one_operator OPERATOR))) = Inr () \<and>
   state (calls (run [Dispatch 0, Complete 0] (one_operator OPERATOR)) 0) = COMPLETE \<and>
   call (employees (run [Dispatch 0, Complete 0] (one_operator OPERATOR)) 0) = Some 0 \<and>
   queued_calls (center (run [Dispatch 0, Complete 0, Dispatch 1] (one_operator OPERATOR))) = [1]"
  by (simp add: unfold_all)

text \<open>
  The other half of the claim holds up to the name of the exception: with an empty slot
  \<open>complete_call\<close> raises (an \<open>AttributeError\<close>, from \<open>self.call.state\<close>) and the store
  is unchanged.
\<close>

lemma complete_call_without_call:
  "call (employees s e) = None \<Longrightarrow> complete_call e s = (Inl AttributeError, s)"
  by (simp add: complete_call_def)

text \<open>
  C2, the claim fails: the completion hook does not drain the queue. Two operators take
  calls 0 and 1, call 2 is queued, and operator 1 escalates call 1 and is free. The queue
  holds call 2, of rank \<open>OPERATOR\<close>, and a free operator exists. Operator 0 completes
  call 0: the queue still holds call 2, call 2 is still \<open>READY\<close>, operator 1 is still free.
\<close>

theorem C2_backlog_not_drained:
  "queued_calls (center (run [Dispatch 0, Dispatch 1, Dispatch 2, Escalate 1] two_operators)) = [2] \<and>
   Call.rank (calls (run [Dispatch 0, Dispatch 1, Dispatch 2, Escalate 1] two_operators) 2)
     = Member OPERATOR \<and>
   call (employees (run [Dispatch 0, Dispatch 1, Dispatch 2, Escalate 1] two_operators) 0) = Some 0 \<and>
   call (employees (run [Dispatch 0, Dispatch 1, Dispatch 2, Escalate 1] two_operators) 1) = None \<and>
   fst (complete_call 0 (run [Dispatch 0, Dispatch 1, Dispatch 2, Escalate 1] two_operators))
     = Inr () \<and>
   queued_calls (center (run [Dispatch 0, Dispatch 1, Dispatch 2, Escalate 1, Complete 0]
       two_operators)) = [2] \<and>
   state (calls (run [Dispatch 0, Dispatch 1, Dispatch 2, Escalate 1, Complete 0] two_operators) 2)
     = READY \<and>
   call (employees (run [Dispatch 0, Dispatch 1, Dispatch 2, Escalate 1, Complete 0]
       two_operators) 1) = None"
  by (simp add: unfold_all)

text \<open>
  C2, as amended. The completion hook is a placeholder that does nothing: when an employee
  completes a call, the call center (the pools and the queue) is left as it was, every
  call other than the completed one is left as it was (no queued call is assigned) and
  every other employee is left as it was. No call is drained by a completion.
\<close>

theorem C2_completion_drains_nothing:
  "center (snd (complete_call e s)) = center s \<and>
   (\<forall>c'. call (employees s e) \<noteq> Some c' \<longrightarrow> calls (snd (complete_call e s)) c' = calls s c') \<and>
   (\<forall>e'. e' \<noteq> e \<longrightarrow> employees (snd (complete_call e s)) e' = employees s e')"
  by (cases "call (employees s e)")
     (simp_all add: complete_call_def notify_call_completed_def)

theorem C2_completion_drains_nothing_witness:
  "call (employees (run [Dispatch 0, Dispatch 1, Dispatch 2, Escalate 1] two_operators) 0) \<noteq> Some 2 \<and>
   (1::nat) \<noteq> 0 \<and>
   queued_calls (center (snd (complete_call 0
       (run [Dispatch 0, Dispatch 1, Dispatch 2, Escalate 1] two_operators)))) = [2] \<and>
   calls (snd (complete_call 0 (run [Dispatch 0, Dispatch 1, Dispatch 2, Escalate 1] two_operators))) 2
     = calls (run [Dispatch 0, Dispatch 1, Dispatch 2, Escalate 1] two_operators) 2 \<and>
   employees (snd (complete_call 0 (run [Dispatch 0, Dispatch 1, Dispatch 2, Escalate 1] two_operators))) 1
     = employees (run [Dispatch 0, Dispatch 1, Dispatch 2, Escalate 1] two_operators) 1"
proof -
  let ?s = "run [Dispatch 0, Dispatch 1, Dispatch 2, Escalate 1] two_operators"
  have h: "call (employees ?s 0) \<noteq> Some 2" by (simp add: unfold_all)
  have q: "queued_calls (center ?s) = [2]" by (simp add: unfold_all)
  from C2_completion_drains_nothing [of 0 ?s] h q show ?thesis by simp
qed

section \<open>Consistency of calls and slots\<close>

lemma take_call_consistent:
  assumes a: "assigned_consistent s" and free: "call (employees s e) = None"
  shows "assigned_consistent (take_call e c s)"
  unfolding assigned_consistent_def
proof (intro allI impI)
  fix c'
  assume p: "state (calls (take_call e c s) c') = IN_PROGRESS"
  show "\<exists>x. employee (calls (take_call e c s) c') = Some x \<and>
          call (employees (take_call e c s) x) = Some c'"
  proof (cases "c' = c")
    case True
    then show ?thesis by (simp add: take_call_calls take_call_employees)
  next
    case False
    with p have "state (calls s c') = IN_PROGRESS" by (simp add: take_call_calls)
    with a obtain e' where e': "employee (calls s c') = Some e'" "call (employees s e') = Some c'"
      by (auto simp: assigned_consistent_def)
    with free have "e' \<noteq> e" by auto
    with e' False show ?thesis by (simp add: take_call_calls take_call_employees)
  qed
qed

lemma dispatch_to_available_consistent:
  "assigned_consistent s \<Longrightarrow> assigned_consistent (snd (dispatch_to_available c es s))"
  by (induction es) (simp_all add: take_call_consistent)

lemma py_or_consistent:
  "assigned_consistent (snd a) \<Longrightarrow>
   (\<And>s. assigned_consistent s \<Longrightarrow> assigned_consistent (snd (b s))) \<Longrightarrow>
     assigned_consistent (snd (py_or a b))"
  by (cases a) (auto simp: py_or_def split: option.splits)

lemma dispatch_call_based_on_rank_consistent:
  "assigned_consistent s \<Longrightarrow> assigned_consistent (snd (dispatch_call_based_on_rank c s))"
  by (simp add: dispatch_call_based_on_rank_def py_or_consistent
        dispatch_to_available_consistent)

lemma center_update_consistent:
  "assigned_consistent s \<Longrightarrow> assigned_consistent (s\<lparr>center := q\<rparr>)"
  by (simp add: assigned_consistent_def)

lemma dispatch_call_consistent:
  assumes a: "assigned_consistent s"
  shows "assigned_consistent (snd (dispatch_call c s))"
proof -
  obtain r s1 where d: "dispatch_call_based_on_rank c s = (r, s1)"
    by (cases "dispatch_call_based_on_rank c s")
  from a have "assigned_consistent (snd (dispatch_call_based_on_rank c s))"
    by (rule dispatch_call_based_on_rank_consistent)
  with d have "assigned_consistent s1" by simp
  with a d show ?thesis
    by (cases r) (simp_all add: dispatch_call_def center_update_consistent)
qed

lemma complete_call_consistent:
  "assigned_consistent s \<Longrightarrow> assigned_consistent (snd (complete_call e s))"
  by (auto simp: assigned_consistent_def complete_call_def notify_call_completed_def
        split: option.splits)

lemma escalate_call_internal_store:
  "call (employees s e) = Some c \<Longrightarrow>
     snd (escalate_call_internal e s) =
       s\<lparr>calls := (calls s)(c := (calls s c)\<lparr>state := READY\<rparr>),
         employees := (employees s)(e := (employees s e)\<lparr>call := None\<rparr>)\<rparr>"
  by (simp add: escalate_call_internal_def notify_call_escalated_def Let_def)

lemma escalate_call_internal_consistent:
  assumes a: "assigned_consistent s"
  shows "assigned_consistent (snd (escalate_call_internal e s))"
proof (cases "call (employees s e)")
  case None
  with a show ?thesis by (simp add: escalate_call_internal_def)
next
  case (Some c0)
  let ?t = "s\<lparr>calls := (calls s)(c0 := (calls s c0)\<lparr>state := READY\<rparr>),
              employees := (employees s)(e := (employees s e)\<lparr>call := None\<rparr>)\<rparr>"
  have "assigned_consistent ?t"
    unfolding assigned_consistent_def
  proof (intro allI impI)
    fix c
    assume p: "state (calls ?t c) = IN_PROGRESS"
    then have ne: "c \<noteq> c0" by (auto split: if_splits)
    with p have "state (calls s c) = IN_PROGRESS" by simp
    with a obtain e' where e': "employee (calls s c) = Some e'" "call (employees s e') = Some c"
      by (auto simp: assigned_consistent_def)
    with Some ne have "e' \<noteq> e" by auto
    with e' ne show "\<exists>x. employee (calls ?t c) = Some x \<and> call (employees ?t x) = Some c"
      by simp
  qed
  then show ?thesis by (simp only: escalate_call_internal_store [OF Some])
qed

lemma set_rank_consistent:
  "assigned_consistent s \<Longrightarrow>
     assigned_consistent (s\<lparr>calls := (calls s)(c := (calls s c)\<lparr>Call.rank := r\<rparr>)\<rparr>)"
  by (auto simp: assigned_consistent_def)

lemma escalate_call_consistent:
  "assigned_consistent s \<Longrightarrow> assigned_consistent (snd (escalate_call e s))"
  by (cases "Employee.rank (employees s e)")
     (simp_all add: escalate_call_def Operator_escalate_call_def Supervisor_escalate_call_def
        Director_escalate_call_def escalate_call_internal_consistent set_rank_consistent
        split: option.splits)

lemma step_consistent:
  "assigned_consistent s \<Longrightarrow> assigned_consistent (snd (step x s))"
  by (cases x)
     (simp_all add: dispatch_call_consistent complete_call_consistent escalate_call_consistent)

lemma fresh_consistent: "assigned_consistent (fresh cr er ops sups dirs)"
  by (simp add: assigned_consistent_def fresh_def)

text \<open>
  C4, the claim fails: a call that is not \<open>IN_PROGRESS\<close> can have its employee set, since
  no method ever clears \<open>call.employee\<close>. A supervisor takes call 0 and escalates it: the
  call is \<open>READY\<close> and still names employee 0.
\<close>

theorem C4_ready_call_keeps_employee:
  "state (calls (run [Dispatch 0, Escalate 0] one_supervisor) 0) = READY \<and>
   employee (calls (run [Dispatch 0, Escalate 0] one_supervisor) 0) = Some 0 \<and>
   \<not> (state (calls (run [Dispatch 0, Escalate 0] one_supervisor) 0) = IN_PROGRESS \<longleftrightarrow>
        employee (calls (run [Dispatch 0, Escalate 0] one_supervisor) 0) \<noteq> None)"
  by (simp add: unfold_all)

text \<open>
  C4, as amended. After any sequence of the public operations \<open>dispatch_call\<close>,
  \<open>complete_call\<close> and \<open>escalate_call\<close> (failing ones included), started in a store where
  it holds (such as a new call center, where no call is \<open>IN_PROGRESS\<close>): every call whose
  state is \<open>IN_PROGRESS\<close> has its employee set, and that employee's slot holds the call.
  The converse is not claimed.
\<close>

theorem C4_assigned_call_is_held:
  "assigned_consistent s \<Longrightarrow> assigned_consistent (run xs s)"
  by (induction xs arbitrary: s) (simp_all add: step_consistent)

theorem C4_assigned_call_is_held_witness:
  "assigned_consistent two_operators \<and>
   assigned_consistent (run [Dispatch 0, Dispatch 1, Escalate 0, Complete 1, Dispatch 2] two_operators) \<and>
   state (calls (run [Dispatch 0, Dispatch 1, Escalate 0, Complete 1, Dispatch 2] two_operators) 2)
     = IN_PROGRESS \<and>
   employee (calls (run [Dispatch 0, Dispatch 1, Escalate 0, Complete 1, Dispatch 2] two_operators) 2)
     = Some 0 \<and>
   call (employees (run [Dispatch 0, Dispatch 1, Escalate 0, Complete 1, Dispatch 2] two_operators) 0)
     = Some 2"
proof -
  have i: "assigned_consistent two_operators"
    by (simp add: assigned_consistent_def two_operators_def fresh_def)
  from C4_assigned_call_is_held [OF i, of "[Dispatch 0, Dispatch 1, Escalate 0, Complete 1, Dispatch 2]"] i
  show ?thesis by (simp add: unfold_all)
qed

end
